theory Spec2Isabelle
  imports Complex_Main "HOL-Library.Multiset"
begin

section \<open>Conventions of the embedding\<close>

text \<open>
  The program is a TypeScript service. Its JavaScript numbers are modelled as rationals
  (\<open>rat\<close>): exact arithmetic, no rounding, no NaN or infinities; where the source can
  produce NaN the model returns \<open>None\<close>. Counts and lengths are \<open>nat\<close>. Times are
  milliseconds since the epoch (\<open>int\<close>), and every call of \<open>Date.now()\<close> is a
  parameter. Strings are \<open>string\<close>; a character is one code unit in the range
  U+0000 to U+00FF. An optional field is an \<open>option\<close>; the JavaScript truthiness
  test on an optional string is \<open>truthy\<close>. Record fields that none of the modelled
  functions reads are left out and named where the record is declared.
\<close>

definition truthy :: "string option \<Rightarrow> bool" where
  "truthy v = (case v of None \<Rightarrow> False | Some s \<Rightarrow> s \<noteq> [])"

subsection \<open>Strings\<close>

text \<open>\<open>String.prototype.toLowerCase\<close> on code units below U+0100.\<close>

definition toLowerChar :: "char \<Rightarrow> char" where
  "toLowerChar c =
     (let n = (of_char c :: nat)
      in if (65 \<le> n \<and> n \<le> 90) \<or> (192 \<le> n \<and> n \<le> 222 \<and> n \<noteq> 215)
         then char_of (n + 32) else c)"

definition toLowerCase :: "string \<Rightarrow> string" where
  "toLowerCase s = map toLowerChar s"

text \<open>\<open>s.startsWith(p)\<close> and \<open>s.includes(p)\<close>.\<close>

definition startsWith :: "string \<Rightarrow> string \<Rightarrow> bool" where
  "startsWith s p = (take (length p) s = p)"

fun includesStr :: "string \<Rightarrow> string \<Rightarrow> bool" where
  "includesStr [] p = (p = [])"
| "includesStr (c # cs) p = (startsWith (c # cs) p \<or> includesStr cs p)"

section \<open>Statistic consensus (stats/consensus.ts)\<close>

datatype StatisticUnit = Count | Percentage | Minutes | Yards | OtherUnit

text \<open>
  \<open>StatisticSource\<close>: \<open>rawValue\<close>, \<open>parsedValue\<close>, \<open>metadata\<close> and \<open>evidence\<close>
  are not read by the functions below. \<open>src_timestamp\<close> is \<open>None\<close> when the field is
  not a \<open>Date\<close> instance.
\<close>

record StatisticSource =
  src_source :: string
  src_tier :: nat
  src_weight :: rat
  src_timestamp :: "int option"

text \<open>\<open>NormalizedStatistic\<close>: \<open>match\<close>, \<open>period\<close> and \<open>aggregation\<close> are not read.\<close>

record NormalizedStatistic =
  st_type :: string
  st_team :: "string option"
  st_player :: "string option"
  st_value :: rat
  st_unit :: StatisticUnit
  st_sources :: "StatisticSource list"

datatype StatisticQueryType = match_statistic | player_statistic | team_aggregate | threshold

datatype Comparator = GT | GE | LT | LE | EQ

record MatchEntities =
  me_homeTeam :: "string option"
  me_awayTeam :: "string option"

record QueryEntities =
  en_match :: MatchEntities
  en_team :: "string option"
  en_player :: "string option"
  en_competition :: "string option"

text \<open>
  \<open>StatisticsQuery\<close>: the date of the match, \<open>eventEndTime\<close> and \<open>canResolveNow\<close>
  come from date parsing against the local clock and are left out, as are the
  competition and the id of the match, which nothing reads.
\<close>

record StatisticsQuery =
  q_queryType :: StatisticQueryType
  q_statisticType :: string
  q_entities :: QueryEntities
  q_aggregation :: string
  q_period :: string
  q_threshold :: "rat option"
  q_comparator :: "Comparator option"
  q_rawText :: string

record StatisticConsensus =
  c_statisticType :: string
  c_agreed :: bool
  c_agreedValue :: "rat option"
  c_unit :: StatisticUnit
  c_agreementCount :: nat
  c_variance :: rat
  c_outliers :: "(string \<times> rat) list"
  c_tier1Count :: nat
  c_statsProviderCount :: nat
  c_officialSourcePresent :: bool
  c_bettingMarketAlignment :: bool
  c_supportingSources :: "StatisticSource list"

definition STATS_PROVIDER_NAMES :: "string list" where
  "STATS_PROVIDER_NAMES = [''OPTA_STATS'', ''STATSBOMB'', ''SPORTSRADAR'']"

definition matchesQuery :: "StatisticsQuery \<Rightarrow> NormalizedStatistic \<Rightarrow> bool" where
  "matchesQuery query stat =
     (if st_type stat \<noteq> q_statisticType query then False
      else if truthy (en_team (q_entities query)) \<and> truthy (st_team stat)
              \<and> st_team stat \<noteq> en_team (q_entities query) then False
      else if truthy (en_player (q_entities query)) \<and> truthy (st_player stat)
              \<and> st_player stat \<noteq> en_player (q_entities query) then False
      else True)"

definition flattenSources :: "NormalizedStatistic list \<Rightarrow> StatisticSource list" where
  "flattenSources stats = concat (map st_sources stats)"

text \<open>The number of candidates within \<open>tolerance\<close> of \<open>v\<close> (line 70 of the source).\<close>

definition peerCount :: "rat list \<Rightarrow> rat \<Rightarrow> rat \<Rightarrow> nat" where
  "peerCount vals tolerance v = length (filter (\<lambda>candidate. \<bar>candidate - v\<bar> \<le> tolerance) vals)"

text \<open>The \<open>for\<close> loop of \<open>findConsensusValue\<close>; the state is \<open>(bestValue, bestCount)\<close>.\<close>

fun consensusLoop :: "rat list \<Rightarrow> rat \<Rightarrow> rat \<times> nat \<Rightarrow> rat list \<Rightarrow> rat \<times> nat" where
  "consensusLoop vals tolerance best [] = best"
| "consensusLoop vals tolerance (bestValue, bestCount) (v # rest) =
     (let count = peerCount vals tolerance v
      in if count > bestCount \<or> (count = bestCount \<and> v < bestValue)
         then consensusLoop vals tolerance (v, count) rest
         else consensusLoop vals tolerance (bestValue, bestCount) rest)"

text \<open>The value is \<open>None\<close> where the source returns NaN.\<close>

definition findConsensusValue :: "rat list \<Rightarrow> rat \<Rightarrow> rat option \<times> nat" where
  "findConsensusValue vals tolerance =
     (case vals of
        [] \<Rightarrow> (None, 0)
      | v0 # _ \<Rightarrow> (case consensusLoop vals tolerance (v0, 1) vals of
                    (bestValue, bestCount) \<Rightarrow> (Some bestValue, bestCount)))"

definition calculateVariance :: "rat list \<Rightarrow> rat" where
  "calculateVariance vals =
     (if vals = [] then 0
      else let mean = foldl (\<lambda>sum v. sum + v) 0 vals / of_nat (length vals);
               squaredDiff = map (\<lambda>v. (v - mean) ^ 2) vals
           in foldl (\<lambda>sum v. sum + v) 0 squaredDiff / of_nat (length vals))"

text \<open>\<open>stat.sources[0]?.source ?? "unknown"\<close>.\<close>

definition firstSourceName :: "NormalizedStatistic \<Rightarrow> string" where
  "firstSourceName stat = (case st_sources stat of [] \<Rightarrow> ''unknown'' | s # _ \<Rightarrow> src_source s)"

text \<open>The test \<open>/BETTING|ODDS|SETTLEMENT/i\<close> on a source name.\<close>

definition isBettingSource :: "string \<Rightarrow> bool" where
  "isBettingSource name =
     (let l = toLowerCase name
      in includesStr l ''betting'' \<or> includesStr l ''odds'' \<or> includesStr l ''settlement'')"

text \<open>The tolerance of line 15 and the variance bound of line 28.\<close>

definition consensusTolerance :: "StatisticUnit \<Rightarrow> rat" where
  "consensusTolerance u = (if u = Percentage then 1 else 0)"

definition varianceBound :: "StatisticUnit \<Rightarrow> rat" where
  "varianceBound u = (if u = Percentage then 4 else 1)"

definition computeStatisticConsensus ::
  "NormalizedStatistic list \<Rightarrow> StatisticsQuery \<Rightarrow> StatisticConsensus option" where
  "computeStatisticConsensus normalized query =
     (let relevant = filter (matchesQuery query) normalized
      in case relevant of
           [] \<Rightarrow> None
         | first # _ \<Rightarrow>
             (let sources = flattenSources relevant;
                  tolerance = consensusTolerance (st_unit first);
                  vals = map st_value relevant;
                  (agreedValue, agreementCount) = findConsensusValue vals tolerance;
                  variance = calculateVariance vals;
                  outliers = (case agreedValue of
                                None \<Rightarrow> []
                              | Some a \<Rightarrow>
                                  map (\<lambda>stat. (firstSourceName stat, st_value stat))
                                    (filter (\<lambda>stat. \<bar>st_value stat - a\<bar> > tolerance) relevant));
                  tier1Count = length (filter (\<lambda>s. src_tier s = 1) sources);
                  statsProviderCount =
                    length (filter (\<lambda>s. src_source s \<in> set STATS_PROVIDER_NAMES) sources);
                  officialSourcePresent = (tier1Count > 0);
                  bettingMarketAlignment = list_ex (\<lambda>s. isBettingSource (src_source s)) sources;
                  agreed = (agreementCount \<ge> 3 \<and> statsProviderCount \<ge> 1
                            \<and> variance \<le> varianceBound (st_unit first))
              in Some \<lparr> c_statisticType = q_statisticType query,
                        c_agreed = agreed,
                        c_agreedValue = agreedValue,
                        c_unit = st_unit first,
                        c_agreementCount = agreementCount,
                        c_variance = variance,
                        c_outliers = outliers,
                        c_tier1Count = tier1Count,
                        c_statsProviderCount = statsProviderCount,
                        c_officialSourcePresent = officialSourcePresent,
                        c_bettingMarketAlignment = bettingMarketAlignment,
                        c_supportingSources = sources \<rparr>))"

subsection \<open>The consensus rule as the specification words it\<close>





subsection \<open>The inputs of the repository's consensus tests\<close>

text \<open>
  \<open>buildStat\<close> and \<open>BASE_QUERY\<close> of tests/statistics/consensus.spec.ts; the time of
  \<open>new Date()\<close> is the last argument.
\<close>

definition buildStat :: "string \<Rightarrow> rat \<Rightarrow> nat \<Rightarrow> int \<Rightarrow> NormalizedStatistic" where
  "buildStat source v tier now =
     \<lparr> st_type = ''yellow_cards'', st_team = None, st_player = None, st_value = v,
       st_unit = Count,
       st_sources = [\<lparr> src_source = source, src_tier = tier,
                        src_weight = (if tier = 1 then 45 / 100 else 3 / 10),
                        src_timestamp = Some now \<rparr>] \<rparr>"

definition BASE_QUERY :: StatisticsQuery where
  "BASE_QUERY =
     \<lparr> q_queryType = match_statistic, q_statisticType = ''yellow_cards'',
       q_entities = \<lparr> en_match = \<lparr> me_homeTeam = Some ''Arsenal'', me_awayTeam = Some ''Chelsea'' \<rparr>,
                      en_team = None, en_player = None, en_competition = None \<rparr>,
       q_aggregation = ''total'', q_period = ''full_time'',
       q_threshold = None, q_comparator = None,
       q_rawText = ''Total yellow cards in Arsenal vs Chelsea'' \<rparr>"




section \<open>Outcome reconciliation (resolver.ts)\<close>

datatype FactCategory = result | scoreline | award | news | other

text \<open>
  \<open>NormalizedFact\<close>: \<open>raw\<close> is not read. Scores are integers here; the source also
  admits other finite numbers, whose decimal rendering is not modelled.
\<close>

record NormalizedFact =
  provider :: string
  canonicalKey :: string
  display :: string
  category :: FactCategory
  homeTeam :: "string option"
  awayTeam :: "string option"
  winner :: "string option"
  homeScore :: "int option"
  awayScore :: "int option"
  award_name :: "string option"
  player :: "string option"
  status :: "string option"
  endTimestamp :: "string option"
  sourceUrl :: "string option"
  reliability :: rat

text \<open>
  A JavaScript \<open>Set\<close> of strings is the list of its members in insertion order;
  \<open>setAdd\<close> is \<open>Set.prototype.add\<close>, \<open>newSet\<close> is \<open>new Set(iterable)\<close>, and the size
  of the set is the length of the list.
\<close>

definition setAdd :: "string list \<Rightarrow> string \<Rightarrow> string list" where
  "setAdd members x = (if x \<in> set members then members else members @ [x])"

definition newSet :: "string list \<Rightarrow> string list" where
  "newSet xs = foldl setAdd [] xs"

record EvidenceGroup =
  key :: string
  facts :: "NormalizedFact list"
  providers :: "string list"
  reliabilityAverage :: rat

datatype QuestionType = did_result_happen | who_won | player_award | scoreline_question | other_question

datatype Sport = basketball | soccer | general

text \<open>\<open>StructuredQuery\<close> of parsers/query-schema.ts; \<open>matchday\<close> is a number here.\<close>

record StructuredQuery =
  sq_sport :: Sport
  sq_date :: "string option"
  sq_teams :: "string list"
  sq_player :: "string option"
  sq_competition :: "string option"
  sq_matchday :: "nat option"
  sq_questionType :: QuestionType

definition FINAL_STATUS_KEYWORDS :: "string list" where
  "FINAL_STATUS_KEYWORDS =
     [''ft'', ''fulltime'', ''full time'', ''finished'', ''final'', ''completed'',
      ''after overtime'', ''aet'', ''ended'', ''finale'']"

definition MAX_SOURCE_COUNT :: nat where
  "MAX_SOURCE_COUNT = 8"

definition MIN_CORROBORATING_PROVIDERS :: nat where
  "MIN_CORROBORATING_PROVIDERS = 3"

text \<open>
  \<open>normalizeTeamName\<close>: lower-case, split at the runs of characters outside
  \<open>[a-z0-9]\<close>, drop the empty segments, join without separator. \<open>segments\<close> is the list
  of non-empty segments.
\<close>

definition isLowerAlnum :: "char \<Rightarrow> bool" where
  "isLowerAlnum c =
     (let n = (of_char c :: nat) in (97 \<le> n \<and> n \<le> 122) \<or> (48 \<le> n \<and> n \<le> 57))"

fun segments :: "(char \<Rightarrow> bool) \<Rightarrow> string \<Rightarrow> string \<Rightarrow> string list" where
  "segments keep cur [] = (if cur = [] then [] else [cur])"
| "segments keep cur (c # cs) =
     (if keep c then segments keep (cur @ [c]) cs
      else (if cur = [] then [] else [cur]) @ segments keep [] cs)"

definition normalizeTeamName :: "string option \<Rightarrow> string" where
  "normalizeTeamName team =
     (if \<not> truthy team then []
      else concat (segments isLowerAlnum [] (toLowerCase (the team))))"

definition normalizeValue :: "string option \<Rightarrow> string" where
  "normalizeValue v = (if truthy v then normalizeTeamName v else [])"

definition determineWinner ::
  "string option \<Rightarrow> string option \<Rightarrow> int option \<Rightarrow> int option \<Rightarrow> string option \<Rightarrow> string option" where
  "determineWinner home away hs as winnerOverride =
     (if truthy winnerOverride then winnerOverride
      else case (hs, as) of
             (Some h, Some a) \<Rightarrow>
               (if h > a then home else if a > h then away else Some ''draw'')
           | _ \<Rightarrow> None)"

definition averageReliability :: "NormalizedFact list \<Rightarrow> rat" where
  "averageReliability fs =
     (if fs = [] then 1 / 2
      else foldl (\<lambda>sum fct. sum + reliability fct) 0 fs / of_nat (length fs))"

text \<open>
  A JavaScript \<open>Map\<close> with string keys is the association list of its entries in
  insertion order: \<open>mapGet\<close> is \<open>Map.prototype.get\<close>, and \<open>mapSet\<close> is
  \<open>Map.prototype.set\<close>, which keeps the position of an existing key and appends a new
  one.
\<close>

fun mapGet :: "(string \<times> 'v) list \<Rightarrow> string \<Rightarrow> 'v option" where
  "mapGet [] k = None"
| "mapGet ((k', v) # rest) k = (if k' = k then Some v else mapGet rest k)"

fun mapSet :: "(string \<times> 'v) list \<Rightarrow> string \<Rightarrow> 'v \<Rightarrow> (string \<times> 'v) list" where
  "mapSet [] k v = [(k, v)]"
| "mapSet ((k', v') # rest) k v = (if k' = k then (k, v) # rest else (k', v') # mapSet rest k v)"

text \<open>One round of the first loop of \<open>groupFacts\<close>.\<close>

definition groupFactsStep ::
  "(string \<times> EvidenceGroup) list \<Rightarrow> NormalizedFact \<Rightarrow> (string \<times> EvidenceGroup) list" where
  "groupFactsStep groups fct =
     (if canonicalKey fct = [] then groups
      else case mapGet groups (canonicalKey fct) of
             Some existing \<Rightarrow>
               mapSet groups (canonicalKey fct)
                 (existing\<lparr> facts := facts existing @ [fct],
                            providers := setAdd (providers existing) (provider fct) \<rparr>)
           | None \<Rightarrow>
               mapSet groups (canonicalKey fct)
                 \<lparr> key = canonicalKey fct, facts = [fct], providers = newSet [provider fct],
                   reliabilityAverage = reliability fct \<rparr>)"

definition groupFacts :: "NormalizedFact list \<Rightarrow> (string \<times> EvidenceGroup) list" where
  "groupFacts fs =
     map (\<lambda>(k, g). (k, g\<lparr> reliabilityAverage := averageReliability (facts g) \<rparr>))
       (foldl groupFactsStep [] fs)"

text \<open>The loop of \<open>selectAcceptedGroup\<close> over \<open>groups.values()\<close>; the state is \<open>best\<close>.\<close>

fun selectLoop :: "EvidenceGroup option \<Rightarrow> EvidenceGroup list \<Rightarrow> EvidenceGroup option" where
  "selectLoop best [] = best"
| "selectLoop None (g # gs) = selectLoop (Some g) gs"
| "selectLoop (Some best) (g # gs) =
     (let providerDelta = int (length (providers g)) - int (length (providers best))
      in if providerDelta > 0 then selectLoop (Some g) gs
         else if providerDelta = 0 \<and> reliabilityAverage g > reliabilityAverage best
              then selectLoop (Some g) gs
              else selectLoop (Some best) gs)"

definition selectAcceptedGroup :: "(string \<times> EvidenceGroup) list \<Rightarrow> EvidenceGroup option" where
  "selectAcceptedGroup groups = selectLoop None (map snd groups)"

definition isFinalStatus :: "string option \<Rightarrow> bool" where
  "isFinalStatus st =
     (if \<not> truthy st then False
      else let normalized = toLowerCase (the st)
           in normalized \<in> set FINAL_STATUS_KEYWORDS
              \<or> includesStr normalized ''final''
              \<or> includesStr normalized ''full''
              \<or> includesStr normalized ''completed'')"

definition filterFinalFacts :: "NormalizedFact list \<Rightarrow> NormalizedFact list" where
  "filterFinalFacts fs =
     (let finals = filter (\<lambda>fct. category fct = news \<or> isFinalStatus (status fct)) fs
      in if length finals > 0 then finals else fs)"

fun extractWinner :: "NormalizedFact list \<Rightarrow> string option" where
  "extractWinner [] = None"
| "extractWinner (fct # rest) =
     (if truthy (winner fct) \<and> winner fct \<noteq> Some ''draw'' then winner fct
      else extractWinner rest)"

text \<open>Decimal rendering of an integer, as a template literal renders a score.\<close>

definition digitChar :: "nat \<Rightarrow> char" where
  "digitChar d = char_of (48 + d)"

fun showNat :: "nat \<Rightarrow> string" where
  "showNat n = (if n < 10 then [digitChar n] else showNat (n div 10) @ [digitChar (n mod 10)])"

definition showInt :: "int \<Rightarrow> string" where
  "showInt i = (if i < 0 then CHR ''-'' # showNat (nat (- i)) else showNat (nat i))"

text \<open>\<open>Array.prototype.find\<close>.\<close>

fun findFirst :: "('a \<Rightarrow> bool) \<Rightarrow> 'a list \<Rightarrow> 'a option" where
  "findFirst P [] = None"
| "findFirst P (x # xs) = (if P x then Some x else findFirst P xs)"

definition deriveResolution ::
  "StructuredQuery \<Rightarrow> NormalizedFact list \<Rightarrow> string option \<Rightarrow> string" where
  "deriveResolution structured fs winner_opt =
     (case (if \<not> truthy winner_opt \<and> sq_questionType structured = player_award
            then findFirst (\<lambda>fct. category fct = award \<and> truthy (player fct)) fs
            else None) of
        Some awardFct \<Rightarrow> the (player awardFct)
      | None \<Rightarrow>
          (if \<not> truthy winner_opt then ''insufficient_data''
           else case sq_questionType structured of
                  did_result_happen \<Rightarrow>
                    (case sq_teams structured of
                       [] \<Rightarrow> ''insufficient_data''
                     | targetTeam # _ \<Rightarrow>
                         (if targetTeam = [] then ''insufficient_data''
                          else if normalizeValue winner_opt = normalizeValue (Some targetTeam)
                               then ''yes'' else ''no''))
                | who_won \<Rightarrow> the winner_opt
                | scoreline_question \<Rightarrow>
                    (case findFirst (\<lambda>item. homeScore item \<noteq> None \<and> awayScore item \<noteq> None
                                            \<and> truthy (homeTeam item) \<and> truthy (awayTeam item)) fs of
                       Some fct \<Rightarrow>
                         the (homeTeam fct) @ '' '' @ showInt (the (homeScore fct)) @ ''-''
                           @ showInt (the (awayScore fct)) @ '' '' @ the (awayTeam fct)
                     | None \<Rightarrow> the winner_opt)
                | _ \<Rightarrow> the winner_opt))"

definition computeConfidence :: "nat \<Rightarrow> nat \<Rightarrow> rat \<Rightarrow> rat" where
  "computeConfidence agreeingSources conflicts avgReliability =
     (let base0 = (if agreeingSources = 3 then 6 / 10
                   else if agreeingSources = 4 then 75 / 100
                   else if agreeingSources \<ge> 5 then 9 / 10
                   else 3 / 10);
          base = base0 - min (25 / 100) (of_nat conflicts * (1 / 10));
          reliabilityAdjustment = (avgReliability - 7 / 10) * (15 / 100)
      in base + reliabilityAdjustment)"

text \<open>
  \<open>computeFreshnessBonus\<close>. \<open>Date.parse\<close> is the parameter \<open>dateParse\<close>, with \<open>None\<close>
  for a string it does not parse (NaN); \<open>now\<close> is \<open>Date.now()\<close>.
\<close>

definition isRecent :: "(string \<Rightarrow> int option) \<Rightarrow> int \<Rightarrow> NormalizedFact \<Rightarrow> bool" where
  "isRecent dateParse now fct =
     (if \<not> truthy (endTimestamp fct) then False
      else case dateParse (the (endTimestamp fct)) of
             None \<Rightarrow> False
           | Some ts \<Rightarrow> now - ts < 72 * 60 * 60 * 1000)"

definition computeFreshnessBonus ::
  "(string \<Rightarrow> int option) \<Rightarrow> int \<Rightarrow> NormalizedFact list \<Rightarrow> rat" where
  "computeFreshnessBonus dateParse now fs =
     (let recent = filter (isRecent dateParse now) fs
      in if length recent = length fs \<and> length fs > 0 then 5 / 100
         else if length recent \<ge> (length fs + 1) div 2 then 2 / 100
         else 0)"

definition clampConfidence :: "rat \<Rightarrow> rat" where
  "clampConfidence v = (if v < 0 then 0 else if v > 1 then 1 else v)"

definition isDefinedString :: "string \<Rightarrow> bool" where
  "isDefinedString v = (v \<noteq> [])"

definition gatherSources :: "NormalizedFact list \<Rightarrow> string list" where
  "gatherSources fs =
     newSet (filter isDefinedString
               (map (\<lambda>fct. case sourceUrl fct of None \<Rightarrow> provider fct | Some u \<Rightarrow> u) fs))"

definition countDistinctProviders :: "NormalizedFact list \<Rightarrow> nat" where
  "countDistinctProviders fs = length (newSet (map provider fs))"

fun countConflicts :: "(string \<times> EvidenceGroup) list \<Rightarrow> string \<Rightarrow> nat" where
  "countConflicts [] acceptedKey = 0"
| "countConflicts ((k, g) # rest) acceptedKey =
     (if k = acceptedKey then countConflicts rest acceptedKey
      else if length (providers g) > 0 then countConflicts rest acceptedKey + 1
      else countConflicts rest acceptedKey)"

record AnalysisResult =
  an_normalizedFacts :: "NormalizedFact list"
  an_groups :: "(string \<times> EvidenceGroup) list"
  an_acceptedGroup :: "EvidenceGroup option"
  an_errors :: "string list"

definition analyzeFacts :: "NormalizedFact list \<Rightarrow> string list \<Rightarrow> AnalysisResult" where
  "analyzeFacts normalizedFacts errors =
     (let groups = groupFacts normalizedFacts
      in \<lparr> an_normalizedFacts = normalizedFacts, an_groups = groups,
           an_acceptedGroup = selectAcceptedGroup groups, an_errors = errors \<rparr>)"

text \<open>
  What \<open>summarizeWithModel\<close> hands back from the language model; \<open>None\<close> for the whole
  record when the call failed.
\<close>

record ModelSummary =
  ms_reasoning :: "string option"
  ms_sources :: "string list"
  ms_confidence :: "rat option"
  ms_resolution :: "string option"

text \<open>\<open>ResolutionDecision\<close>: \<open>reasoning\<close> and \<open>modelSummary\<close> are left out.\<close>

record ResolutionDecision =
  rd_resolution :: string
  rd_confidence :: rat
  rd_sources :: "string list"
  rd_acceptedGroupKey :: "string option"
  rd_finalFacts :: "NormalizedFact list"
  rd_errors :: "string list"

text \<open>
  \<open>decideResolution\<close>. The awaited call of \<open>summarizeWithModel\<close> is the parameter
  \<open>summarize\<close>, applied to the candidate resolution, confidence and sources it is given.
\<close>

definition decideResolution ::
  "(string \<Rightarrow> int option) \<Rightarrow> int
   \<Rightarrow> (string \<Rightarrow> rat \<Rightarrow> string list \<Rightarrow> ModelSummary option)
   \<Rightarrow> StructuredQuery \<Rightarrow> AnalysisResult \<Rightarrow> ResolutionDecision" where
  "decideResolution dateParse now summarize structured analysis =
     (let decision = \<lparr> rd_resolution = ''insufficient_data'', rd_confidence = 25 / 100,
                       rd_sources = [], rd_acceptedGroupKey = None, rd_finalFacts = [],
                       rd_errors = an_errors analysis \<rparr>
      in case an_acceptedGroup analysis of
           None \<Rightarrow> decision
         | Some grp \<Rightarrow>
             (let finalFacts = filterFinalFacts (facts grp);
                  decision1 = decision\<lparr> rd_finalFacts := finalFacts \<rparr>;
                  providerCount = countDistinctProviders finalFacts
              in if providerCount < MIN_CORROBORATING_PROVIDERS
                 then decision1\<lparr> rd_confidence := 3 / 10, rd_acceptedGroupKey := Some (key grp) \<rparr>
                 else
                   (let winner_opt = extractWinner finalFacts;
                        resolution = deriveResolution structured finalFacts winner_opt
                    in if resolution = ''insufficient_data''
                       then decision1\<lparr> rd_confidence := 3 / 10,
                                       rd_acceptedGroupKey := Some (key grp) \<rparr>
                       else
                         (let conflicts = countConflicts (an_groups analysis) (key grp);
                              avgReliability = averageReliability finalFacts;
                              freshnessBonus = computeFreshnessBonus dateParse now finalFacts;
                              confidence = clampConfidence
                                (computeConfidence providerCount conflicts avgReliability
                                   + freshnessBonus);
                              sources = take MAX_SOURCE_COUNT (gatherSources finalFacts)
                          in case summarize resolution confidence sources of
                               None \<Rightarrow>
                                 \<lparr> rd_resolution = resolution, rd_confidence = confidence,
                                   rd_sources = sources,
                                   rd_acceptedGroupKey = Some (key grp),
                                   rd_finalFacts = finalFacts,
                                   rd_errors = rd_errors decision1 \<rparr>
                             | Some summary \<Rightarrow>
                                 \<lparr> rd_resolution = resolution,
                                   rd_confidence =
                                     (case ms_confidence summary of
                                        None \<Rightarrow> confidence
                                      | Some mc \<Rightarrow> clampConfidence ((confidence + mc) / 2)),
                                   rd_sources =
                                     (if length (ms_sources summary) > 0
                                      then take MAX_SOURCE_COUNT
                                             (newSet (sources @ ms_sources summary))
                                      else sources),
                                   rd_acceptedGroupKey = Some (key grp),
                                   rd_finalFacts = finalFacts,
                                   rd_errors =
                                     (if truthy (ms_resolution summary)
                                         \<and> normalizeValue (ms_resolution summary)
                                             \<noteq> normalizeValue (Some resolution)
                                      then rd_errors decision1 @
                                        [''LLM resolution differed from deterministic resolution; deterministic result retained.'']
                                      else rd_errors decision1) \<rparr>))))"

subsection \<open>The outcome confidence as the specification words it\<close>




subsection \<open>Example facts\<close>

text \<open>
  A finished Lakers v Suns match as a provider reports it: \<open>matchFact p r w h a t\<close> is
  the fact of provider \<open>p\<close> with reliability \<open>r\<close>, winner \<open>w\<close>, score \<open>h\<close>-\<open>a\<close> and end
  timestamp \<open>t\<close>, under the canonical key of that winner.
\<close>

definition matchFact ::
  "string \<Rightarrow> rat \<Rightarrow> string \<Rightarrow> int \<Rightarrow> int \<Rightarrow> string option \<Rightarrow> NormalizedFact" where
  "matchFact p r w h a t =
     \<lparr> provider = p,
       canonicalKey = ''winner:'' @ normalizeTeamName (Some w) @ '':lakers|suns:2025-01-15'',
       display = ''Lakers '' @ showInt h @ ''-'' @ showInt a @ '' Suns'',
       category = result, homeTeam = Some ''Lakers'', awayTeam = Some ''Suns'',
       winner = Some w, homeScore = Some h, awayScore = Some a, award_name = None,
       player = None, status = Some ''FT'', endTimestamp = t, sourceUrl = None,
       reliability = r \<rparr>"

definition lakersQuery :: StructuredQuery where
  "lakersQuery =
     \<lparr> sq_sport = basketball, sq_date = Some ''2025-01-15'', sq_teams = [''lakers'', ''suns''],
       sq_player = None, sq_competition = None, sq_matchday = None,
       sq_questionType = did_result_happen \<rparr>"

text \<open>Three providers reporting a draw, without end timestamps.\<close>

definition drawFacts :: "NormalizedFact list" where
  "drawFacts =
     [matchFact ''THESPORTSDB'' (85 / 100) ''draw'' 100 100 None,
      matchFact ''API_SPORTS_BASKETBALL'' (95 / 100) ''draw'' 100 100 None,
      matchFact ''THE_ODDS_API'' (9 / 10) ''draw'' 100 100 None]"

definition drawGroup :: EvidenceGroup where
  "drawGroup =
     \<lparr> key = ''winner:draw:lakers|suns:2025-01-15'', facts = drawFacts,
       providers = [''THESPORTSDB'', ''API_SPORTS_BASKETBALL'', ''THE_ODDS_API''],
       reliabilityAverage = 9 / 10 \<rparr>"

text \<open>
  The clock of the examples: \<open>exampleNow\<close> is 2025-01-16T12:00:00Z, and
  \<open>exampleDateParse\<close> parses the one timestamp the examples use.
\<close>

definition exampleNow :: int where
  "exampleNow = 1737028800000"

definition exampleDateParse :: "string \<Rightarrow> int option" where
  "exampleDateParse s = (if s = ''2025-01-15T22:00:00Z'' then Some 1736978400000 else None)"



text \<open>A language model call that failed.\<close>

definition noModelSummary :: "string \<Rightarrow> rat \<Rightarrow> string list \<Rightarrow> ModelSummary option" where
  "noModelSummary resolution confidence sources = None"

subsection \<open>Predicates of the grouping proof\<close>




subsection \<open>Example facts for the selection\<close>





section \<open>Circuit breaker (utils.ts)\<close>

record CircuitBreakerState =
  failures :: nat
  openedAt :: "int option"

record CircuitBreaker =
  cb_state :: CircuitBreakerState
  failureThreshold :: nat
  cooldownMs :: int


text \<open>\<open>recordFailure\<close>; \<open>now\<close> is the value of \<open>Date.now()\<close> it reads.\<close>

definition recordFailure :: "CircuitBreaker \<Rightarrow> int \<Rightarrow> CircuitBreaker" where
  "recordFailure cb now =
     (let n = failures (cb_state cb) + 1
      in cb\<lparr> cb_state := \<lparr> failures = n,
                           openedAt = (if n \<ge> failureThreshold cb then Some now
                                       else openedAt (cb_state cb)) \<rparr> \<rparr>)"

definition reset :: "CircuitBreaker \<Rightarrow> CircuitBreaker" where
  "reset cb = cb\<lparr> cb_state := \<lparr> failures = 0, openedAt = None \<rparr> \<rparr>"

text \<open>\<open>isOpen\<close> returns its answer and the breaker, which it resets after the cooldown.\<close>

definition isOpen :: "CircuitBreaker \<Rightarrow> int \<Rightarrow> bool \<times> CircuitBreaker" where
  "isOpen cb now =
     (case openedAt (cb_state cb) of
        None \<Rightarrow> (False, cb)
      | Some opened \<Rightarrow>
          (let elapsed = now - opened
           in if elapsed > cooldownMs cb then (False, reset cb) else (True, cb)))"

text \<open>
  An action is a function of the world it acts on: it returns how its promise settles and
  the world it leaves. A rejection carries the error and the time at which the
  \<open>catch\<close> handler of \<open>exec\<close> runs. A call that does not invoke the action leaves the
  world as it is.
\<close>

datatype 'a Settled = Fulfilled 'a | Rejected string int

datatype 'a ExecResult = Returned 'a | Thrown string | CircuitOpenError

definition exec ::
  "CircuitBreaker \<Rightarrow> int \<Rightarrow> ('w \<Rightarrow> 'a Settled \<times> 'w) \<Rightarrow> 'w \<Rightarrow> 'a ExecResult \<times> CircuitBreaker \<times> 'w" where
  "exec cb now action w =
     (case isOpen cb now of
        (True, cb') \<Rightarrow> (CircuitOpenError, cb', w)
      | (False, cb') \<Rightarrow>
          (case action w of
             (Fulfilled v, w') \<Rightarrow> (Returned v, reset cb', w')
           | (Rejected e t, w') \<Rightarrow> (Thrown e, recordFailure cb' t, w')))"







section \<open>Statistic confidence and resolution (stats/confidence.ts, stats/resolution.ts)\<close>

record StatisticsValidationSummary =
  vs_withinRange :: bool
  vs_logicallyConsistent :: bool
  vs_warnings :: "string list"
  vs_invalidSources :: "string list"

text \<open>\<open>StatisticProviderResponse\<close>: \<open>payload\<close> and \<open>meta\<close> are not read here.\<close>

record StatisticProviderResponse =
  pr_provider :: string
  pr_tier :: nat
  pr_weight :: rat
  pr_collectedAt :: int

definition clamp01 :: "rat \<Rightarrow> rat" where
  "clamp01 v = max 0 (min 1 v)"

text \<open>\<open>computeFreshnessScore\<close>; \<open>now\<close> is \<open>Date.now()\<close>, ages are in minutes.\<close>

definition computeFreshnessScore :: "int \<Rightarrow> StatisticSource list \<Rightarrow> rat" where
  "computeFreshnessScore now sources =
     (if length sources = 0 then 0
      else let ages = map (\<lambda>t. (of_int (now - t) :: rat) / (1000 * 60))
                        (concat (map (\<lambda>s. case src_timestamp s of None \<Rightarrow> [] | Some t \<Rightarrow> [t])
                                     sources))
           in if length ages = 0 then 1 / 2
              else let averageAgeMinutes = foldl (\<lambda>sum age. sum + age) 0 ages / of_nat (length ages)
                   in if averageAgeMinutes \<le> 15 then 1
                      else if averageAgeMinutes \<le> 60 then 8 / 10
                      else if averageAgeMinutes \<le> 180 then 6 / 10
                      else if averageAgeMinutes \<le> 720 then 4 / 10
                      else 2 / 10)"

record ConfidenceComputationResult =
  cc_score :: rat
  cc_adjustments :: "(string \<times> rat) list"

text \<open>
  \<open>computeConfidenceScore\<close>; of the factors it reports only the adjustments are kept.
  The three multipliers are applied in the order of the source.
\<close>

definition computeConfidenceScore ::
  "int \<Rightarrow> StatisticConsensus option \<Rightarrow> NormalizedStatistic list
   \<Rightarrow> StatisticsValidationSummary option \<Rightarrow> ConfidenceComputationResult" where
  "computeConfidenceScore now consensus normalized validation =
     (let sources = concat (map st_sources normalized);
          officialStatsProviderAgreement =
            (case consensus of None \<Rightarrow> 0 | Some c \<Rightarrow> if c_statsProviderCount c > 0 then 1 else 0);
          officialLeagueAPIAgreement =
            (case consensus of None \<Rightarrow> 0 | Some c \<Rightarrow> if c_tier1Count c > 0 then 1 else 0);
          agreementDenominator = max 3 (length sources);
          totalSourceAgreement =
            (case consensus of
               None \<Rightarrow> 0
             | Some c \<Rightarrow> min 1 (of_nat (c_agreementCount c) / of_nat agreementDenominator));
          bettingMarketAlignment =
            (case consensus of None \<Rightarrow> 0 | Some c \<Rightarrow> if c_bettingMarketAlignment c then 1 else 0);
          varianceThreshold =
            (case consensus of None \<Rightarrow> 1 | Some c \<Rightarrow> if c_unit c = Percentage then 4 else 1);
          normalizedVariance =
            (case consensus of None \<Rightarrow> 0 | Some c \<Rightarrow> c_variance c / varianceThreshold);
          lowVariance =
            (case consensus of None \<Rightarrow> 0 | Some c \<Rightarrow> clamp01 (1 - min 1 normalizedVariance));
          dataFreshnessScore = computeFreshnessScore now sources;
          score0 = officialStatsProviderAgreement * (4 / 10)
                   + officialLeagueAPIAgreement * (25 / 100)
                   + totalSourceAgreement * (15 / 100)
                   + bettingMarketAlignment * (1 / 10)
                   + lowVariance * (5 / 100)
                   + dataFreshnessScore * (5 / 100);
          highVariance = (case consensus of None \<Rightarrow> False | Some c \<Rightarrow> c_variance c > 2);
          score1 = (if highVariance then score0 * (8 / 10) else score0);
          adjustments1 = (if highVariance then [(''High variance'', 8 / 10)] else []);
          manyOutliers = (case consensus of None \<Rightarrow> False | Some c \<Rightarrow> length (c_outliers c) > 1);
          score2 = (if manyOutliers then score1 * (9 / 10) else score1);
          adjustments2 = (if manyOutliers then adjustments1 @ [(''Multiple outliers'', 9 / 10)]
                          else adjustments1);
          unusual = (case validation of
                       None \<Rightarrow> False
                     | Some v \<Rightarrow> list_ex (\<lambda>warning. startsWith warning ''Unusual value'')
                                   (vs_warnings v));
          score3 = (if unusual then score2 * (95 / 100) else score2);
          adjustments3 = (if unusual then adjustments2 @ [(''Unusual statistic value'', 95 / 100)]
                          else adjustments2)
      in \<lparr> cc_score = clamp01 score3, cc_adjustments = adjustments3 \<rparr>)"

record StatisticsResolutionArtifacts =
  ar_providers :: "StatisticProviderResponse list"
  ar_normalizedStatistics :: "NormalizedStatistic list"
  ar_validation :: "StatisticsValidationSummary option"
  ar_consensus :: "StatisticConsensus option"
  ar_confidence :: "rat option"
  ar_errors :: "string list"
  ar_warnings :: "string list"

text \<open>
  \<open>runStatisticsGraph\<close> from its node \<open>consensus\<close> on: the provider responses, the
  normalized statistics and the validation summary that the nodes \<open>fetch_providers\<close>,
  \<open>normalize\<close> and \<open>validate\<close> left in the state are parameters, with the errors and
  warnings collected so far.
\<close>

definition runStatisticsGraph ::
  "int \<Rightarrow> StatisticsQuery \<Rightarrow> StatisticProviderResponse list \<Rightarrow> NormalizedStatistic list
   \<Rightarrow> StatisticsValidationSummary option \<Rightarrow> string list \<Rightarrow> string list
   \<Rightarrow> StatisticsResolutionArtifacts" where
  "runStatisticsGraph now query providerResponses normalized validation errors warnings =
     (let consensus = computeStatisticConsensus normalized query;
          score = cc_score (computeConfidenceScore now consensus normalized validation)
      in \<lparr> ar_providers = providerResponses, ar_normalizedStatistics = normalized,
           ar_validation = validation, ar_consensus = consensus, ar_confidence = Some score,
           ar_errors = errors, ar_warnings = warnings \<rparr>)"

definition evaluateThreshold :: "rat \<Rightarrow> Comparator \<Rightarrow> rat \<Rightarrow> bool" where
  "evaluateThreshold v comparator thr =
     (case comparator of
        GT \<Rightarrow> v > thr
      | GE \<Rightarrow> v \<ge> thr
      | LT \<Rightarrow> v < thr
      | LE \<Rightarrow> v \<le> thr
      | EQ \<Rightarrow> v = thr)"

text \<open>
  \<open>buildResolution\<close>. The conversion of a number to a string in the template literal is
  the parameter \<open>numberToString\<close>.
\<close>

definition buildResolution ::
  "(rat \<Rightarrow> string) \<Rightarrow> StatisticConsensus option \<Rightarrow> StatisticsQuery \<Rightarrow> string" where
  "buildResolution numberToString consensus query =
     (case (case consensus of None \<Rightarrow> None | Some c \<Rightarrow> c_agreedValue c) of
        None \<Rightarrow> ''insufficient_data''
      | Some agreedValue \<Rightarrow>
          (case (q_queryType query, q_threshold query, q_comparator query) of
             (threshold, Some thr, Some comparator) \<Rightarrow>
               (if evaluateThreshold agreedValue comparator thr then ''yes'' else ''no'')
           | _ \<Rightarrow>
               (let unitSuffix = (case consensus of
                                    None \<Rightarrow> ''''
                                  | Some c \<Rightarrow> if c_unit c = Percentage then ''%'' else '''')
                in q_statisticType query @ '':'' @ numberToString agreedValue @ unitSuffix)))"

definition selectSources ::
  "StatisticConsensus option \<Rightarrow> StatisticProviderResponse list \<Rightarrow> string list" where
  "selectSources consensus providerResponses =
     (case consensus of
        Some c \<Rightarrow> take 8 (map src_source (c_supportingSources c))
      | None \<Rightarrow> take 8 (map pr_provider providerResponses))"

text \<open>\<open>StatisticsResolutionResult\<close>: \<open>reasoning\<close> and \<open>evidence\<close> are left out.\<close>

record StatisticsResolutionResult =
  sr_resolution :: string
  sr_confidence :: rat
  sr_sources :: "string list"

text \<open>\<open>resolveStatisticsQuery\<close>, from the artifacts that the awaited graph returned.\<close>

definition resolveStatisticsQuery ::
  "(rat \<Rightarrow> string) \<Rightarrow> StatisticsResolutionArtifacts \<Rightarrow> StatisticsQuery
   \<Rightarrow> StatisticsResolutionResult" where
  "resolveStatisticsQuery numberToString artifacts statsQuery =
     (let consensus = ar_consensus artifacts;
          confidence = (case ar_confidence artifacts of None \<Rightarrow> 15 / 100 | Some s \<Rightarrow> s)
      in \<lparr> sr_resolution = buildResolution numberToString consensus statsQuery,
           sr_confidence = confidence,
           sr_sources = selectSources consensus (ar_providers artifacts) \<rparr>)"

subsection \<open>Example inputs of the statistic path\<close>

text \<open>
  The decimal rendering of a number that is an integer, which is all the examples need.
\<close>

definition renderInteger :: "rat \<Rightarrow> string" where
  "renderInteger v = showInt \<lfloor>v\<rfloor>"

text \<open>
  One provider whose payload holds the yellow cards of both teams: the normalizer emits
  one statistic for each, both with the provider as their only source.
\<close>

definition optaResponse :: StatisticProviderResponse where
  "optaResponse = \<lparr> pr_provider = ''OPTA_STATS'', pr_tier = 1, pr_weight = 45 / 100,
                     pr_collectedAt = 0 \<rparr>"

definition bothTeamsStats :: "NormalizedStatistic list" where
  "bothTeamsStats = [buildStat ''OPTA_STATS'' 2 1 0, buildStat ''OPTA_STATS'' 3 1 0]"




definition bothTeamsArtifacts :: StatisticsResolutionArtifacts where
  "bothTeamsArtifacts = runStatisticsGraph 0 BASE_QUERY [optaResponse] bothTeamsStats None [] []"

section \<open>Regular expressions\<close>

text \<open>
  The regular expressions of the source are values of \<open>regex\<close>, and \<open>rmatch\<close> is the
  backtracking matcher of ECMAScript (without the \<open>u\<close> flag) for them: it returns every
  way to match at a position, in the order in which the engine tries them, so the first
  one is the match the engine reports. A position is the text before it (reversed), the
  text after it and the captures so far. Classes are lists of code-point ranges, all
  ASCII in the patterns of the source, so that under the flag \<open>i\<close> a character is in a
  class when it or its other case is.
\<close>

datatype regex =
    Lit char
  | Class bool "(nat \<times> nat) list"
  | Dot
  | Empty
  | Seq regex regex
  | Alt regex regex
  | Opt regex
  | Star regex
  | Plus regex
  | LazyPlus regex
  | Group nat regex
  | WordBoundary
  | EndOfInput

type_synonym captures = "(nat \<times> string) list"
type_synonym position = "string \<times> string \<times> captures"

text \<open>\<open>Canonicalize\<close> of the flag \<open>i\<close>: the upper case, on code units below U+0100.\<close>

definition canonicalize :: "char \<Rightarrow> char" where
  "canonicalize c =
     (let n = (of_char c :: nat)
      in if (97 \<le> n \<and> n \<le> 122) \<or> (224 \<le> n \<and> n \<le> 254 \<and> n \<noteq> 247)
         then char_of (n - 32) else c)"

definition eqChar :: "bool \<Rightarrow> char \<Rightarrow> char \<Rightarrow> bool" where
  "eqChar ignoreCase p x = (if ignoreCase then canonicalize p = canonicalize x else p = x)"

definition inRanges :: "(nat \<times> nat) list \<Rightarrow> char \<Rightarrow> bool" where
  "inRanges rs x = list_ex (\<lambda>(lo, hi). lo \<le> of_char x \<and> (of_char x :: nat) \<le> hi) rs"

definition inClass :: "bool \<Rightarrow> bool \<Rightarrow> (nat \<times> nat) list \<Rightarrow> char \<Rightarrow> bool" where
  "inClass ignoreCase negated rs x =
     ((inRanges rs x
       \<or> (ignoreCase \<and> (inRanges rs (canonicalize x) \<or> inRanges rs (toLowerChar x))))
      \<noteq> negated)"

text \<open>The classes \<open>\<bsol>s\<close>, \<open>\<bsol>d\<close> and \<open>\<bsol>w\<close> as ranges.\<close>

definition spaceRanges :: "(nat \<times> nat) list" where
  "spaceRanges = [(9, 13), (32, 32), (160, 160)]"

definition digitRanges :: "(nat \<times> nat) list" where
  "digitRanges = [(48, 57)]"

definition wordRanges :: "(nat \<times> nat) list" where
  "wordRanges = [(65, 90), (97, 122), (48, 57), (95, 95)]"

definition isWordChar :: "char \<Rightarrow> bool" where
  "isWordChar c = inRanges wordRanges c"

definition isLineTerminator :: "char \<Rightarrow> bool" where
  "isLineTerminator c = (of_char c = (10::nat) \<or> of_char c = (13::nat))"

text \<open>
  Greedy and lazy repetition of a matcher \<open>m\<close>. An iteration that consumes nothing is
  rejected, so the length of the remaining text bounds the number of iterations.
\<close>

primrec greedyStar :: "(position \<Rightarrow> position list) \<Rightarrow> nat \<Rightarrow> position \<Rightarrow> position list" where
  "greedyStar m 0 st = [st]"
| "greedyStar m (Suc n) st =
     concat (map (\<lambda>st'. if length (fst (snd st')) < length (fst (snd st))
                          then greedyStar m n st' else [])
                 (m st)) @ [st]"

primrec lazyStar :: "(position \<Rightarrow> position list) \<Rightarrow> nat \<Rightarrow> position \<Rightarrow> position list" where
  "lazyStar m 0 st = [st]"
| "lazyStar m (Suc n) st =
     st # concat (map (\<lambda>st'. if length (fst (snd st')) < length (fst (snd st))
                               then lazyStar m n st' else [])
                      (m st))"

definition matchChar :: "(char \<Rightarrow> bool) \<Rightarrow> position \<Rightarrow> position list" where
  "matchChar ok st =
     (case st of
        (seen, [], caps) \<Rightarrow> []
      | (seen, x # rest, caps) \<Rightarrow> if ok x then [(x # seen, rest, caps)] else [])"

definition atWordBoundary :: "position \<Rightarrow> bool" where
  "atWordBoundary st =
     (case st of (seen, rest, caps) \<Rightarrow>
        (case seen of [] \<Rightarrow> False | p # _ \<Rightarrow> isWordChar p)
        \<noteq> (case rest of [] \<Rightarrow> False | x # _ \<Rightarrow> isWordChar x))"

definition capture :: "nat \<Rightarrow> position \<Rightarrow> position \<Rightarrow> position" where
  "capture n start st =
     (case st of (seen, rest, caps) \<Rightarrow>
        (seen, rest,
         (n, rev (take (length seen - length (fst start)) seen)) # caps))"

primrec rmatch :: "regex \<Rightarrow> bool \<Rightarrow> position \<Rightarrow> position list" where
  "rmatch (Lit p) ignoreCase st = matchChar (eqChar ignoreCase p) st"
| "rmatch (Class negated rs) ignoreCase st = matchChar (inClass ignoreCase negated rs) st"
| "rmatch Dot ignoreCase st = matchChar (\<lambda>x. \<not> isLineTerminator x) st"
| "rmatch Empty ignoreCase st = [st]"
| "rmatch (Seq r1 r2) ignoreCase st = concat (map (rmatch r2 ignoreCase) (rmatch r1 ignoreCase st))"
| "rmatch (Alt r1 r2) ignoreCase st = rmatch r1 ignoreCase st @ rmatch r2 ignoreCase st"
| "rmatch (Opt r) ignoreCase st = rmatch r ignoreCase st @ [st]"
| "rmatch (Star r) ignoreCase st = greedyStar (rmatch r ignoreCase) (length (fst (snd st))) st"
| "rmatch (Plus r) ignoreCase st =
     concat (map (\<lambda>st'. greedyStar (rmatch r ignoreCase) (length (fst (snd st'))) st')
                 (rmatch r ignoreCase st))"
| "rmatch (LazyPlus r) ignoreCase st =
     concat (map (\<lambda>st'. lazyStar (rmatch r ignoreCase) (length (fst (snd st'))) st')
                 (rmatch r ignoreCase st))"
| "rmatch (Group n r) ignoreCase st = map (capture n st) (rmatch r ignoreCase st)"
| "rmatch WordBoundary ignoreCase st = (if atWordBoundary st then [st] else [])"
| "rmatch EndOfInput ignoreCase st = (if fst (snd st) = [] then [st] else [])"

text \<open>
  The result of \<open>RegExp.prototype.exec\<close>: the index of the match, the matched text and
  the captures. \<open>execAt\<close> tries the positions from the one given to the end of the text.
\<close>

record MatchResult =
  mr_index :: nat
  mr_text :: string
  mr_captures :: captures

fun execAt :: "regex \<Rightarrow> bool \<Rightarrow> string \<Rightarrow> string \<Rightarrow> MatchResult option" where
  "execAt r ignoreCase seen [] =
     (case rmatch r ignoreCase (seen, [], []) of
        [] \<Rightarrow> None
      | (seen', rest', caps) # _ \<Rightarrow>
          Some \<lparr> mr_index = length seen,
                 mr_text = rev (take (length seen' - length seen) seen'),
                 mr_captures = caps \<rparr>)"
| "execAt r ignoreCase seen (x # rest) =
     (case rmatch r ignoreCase (seen, x # rest, []) of
        [] \<Rightarrow> execAt r ignoreCase (x # seen) rest
      | (seen', rest', caps) # _ \<Rightarrow>
          Some \<lparr> mr_index = length seen,
                 mr_text = rev (take (length seen' - length seen) seen'),
                 mr_captures = caps \<rparr>)"

definition regexExec :: "regex \<Rightarrow> bool \<Rightarrow> string \<Rightarrow> MatchResult option" where
  "regexExec r ignoreCase s = execAt r ignoreCase [] s"

definition regexTest :: "regex \<Rightarrow> bool \<Rightarrow> string \<Rightarrow> bool" where
  "regexTest r ignoreCase s = (regexExec r ignoreCase s \<noteq> None)"

text \<open>The text of capture group \<open>n\<close> of a match; every group read by the source took part.\<close>

definition captured :: "nat \<Rightarrow> MatchResult \<Rightarrow> string" where
  "captured n m = (case map_of (mr_captures m) n of None \<Rightarrow> [] | Some s \<Rightarrow> s)"




text \<open>Builders for the patterns.\<close>

definition str :: "string \<Rightarrow> regex" where
  "str s = foldr (\<lambda>c r. Seq (Lit c) r) s Empty"

definition alts :: "regex list \<Rightarrow> regex" where
  "alts rs = (case rs of [] \<Rightarrow> Empty | _ \<Rightarrow> foldr Alt (butlast rs) (last rs))"

definition seqs :: "regex list \<Rightarrow> regex" where
  "seqs rs = foldr Seq rs Empty"


definition space :: regex where "space = Class False spaceRanges"
definition digit :: regex where "digit = Class False digitRanges"
definition wordc :: regex where "wordc = Class False wordRanges"

text \<open>\<open>String.prototype.trim\<close>.\<close>

definition isSpaceChar :: "char \<Rightarrow> bool" where
  "isSpaceChar c = inRanges spaceRanges c"

definition trim :: "string \<Rightarrow> string" where
  "trim s = rev (dropWhile isSpaceChar (rev (dropWhile isSpaceChar s)))"

text \<open>The value of a decimal numeral \<open>digits\<close> or \<open>digits.digits\<close>, as \<open>parseFloat\<close> reads it.\<close>

definition digitsValue :: "string \<Rightarrow> nat" where
  "digitsValue ds = foldl (\<lambda>n c. 10 * n + (of_char c - 48)) 0 ds"


section \<open>Query metadata and the outcome classifier (utils.ts, parsers/query-schema.ts)\<close>

record QueryMetadata =
  qm_original :: string
  qm_normalized :: string
  qm_sport :: "string option"
  qm_date :: "string option"
  qm_teams :: "string list"

definition BASKETBALL_KEYWORDS :: "string list" where
  "BASKETBALL_KEYWORDS =
     [''nba'', ''basketball'', ''lakers'', ''warriors'', ''celtics'', ''heat'', ''bucks'', ''suns'',
      ''clippers'', ''bulls'', ''knicks'', ''76ers'']"

text \<open>
  \<open>extractQueryMetadata\<close>. Its helper \<open>detectIsoDate\<close> builds \<open>Date\<close> objects in the
  local time zone; it is the parameter of the same name.
\<close>

definition extractQueryMetadata :: "(string \<Rightarrow> string option) \<Rightarrow> string \<Rightarrow> QueryMetadata" where
  "extractQueryMetadata detectIsoDate query =
     (let normalized = trim query;
          lower = toLowerCase normalized;
          sport = (if list_ex (\<lambda>keyword. includesStr lower keyword) BASKETBALL_KEYWORDS
                   then Some ''basketball'' else None);
          teams = filter (\<lambda>keyword. keyword \<noteq> ''nba'' \<and> keyword \<noteq> ''basketball''
                                      \<and> includesStr lower keyword) BASKETBALL_KEYWORDS;
          isoDate = detectIsoDate lower
      in \<lparr> qm_original = query, qm_normalized = normalized, qm_sport = sport,
           qm_date = isoDate, qm_teams = teams \<rparr>)"

definition PLAYER_HINTS :: "string list" where
  "PLAYER_HINTS = [''mvp'', ''player'', ''scorer'', ''assist'', ''award'']"

definition SCORE_HINTS :: "string list" where
  "SCORE_HINTS = [''score'', ''scoreline'', ''final score'', ''points'']"

text \<open>The patterns of \<open>parseQueryToStructuredRequest\<close>, in the order of the source.\<close>

definition playerRegex :: regex where
  "playerRegex =
     seqs [str ''player'', Star space, Opt (Lit CHR '':''), Star space,
           Group 1 (LazyPlus (Class True [(44, 44), (48, 57)])),
           Alt (Lit CHR ''?'') EndOfInput]"

definition competitionRegex :: regex where
  "competitionRegex =
     seqs [alts [str ''league'', str ''competition'', str ''tournament'', str ''cup''],
           Star space, Opt (Lit CHR '':''), Star space,
           Group 1 (LazyPlus (Class True [(44, 44)])),
           Alt (Lit CHR ''?'') EndOfInput]"

definition matchdayRegex :: regex where
  "matchdayRegex = seqs [str ''matchday'', Star space, Group 1 (Plus digit)]"

definition didResultRegex :: regex where
  "didResultRegex =
     seqs [str ''did'', Plus space, Star Dot,
           Group 1 (alts [str ''win'', str ''lose'', str ''draw'', str ''tie'', str ''happen''])]"

definition whoWonRegex :: regex where
  "whoWonRegex = alts [seqs [str ''who'', Plus space, str ''won''], str ''winner'', str ''victor'']"

definition awardRegex :: regex where
  "awardRegex =
     alts [str ''award'', str ''mvp'',
           seqs [str ''player'', Plus space, str ''of'', Plus space, str ''the'', Plus space,
                 str ''match''],
           seqs [str ''golden'', Plus space, str ''boot''],
           seqs [str ''top'', Plus space, str ''scorer'']]"

text \<open>The pattern of the schema for the date.\<close>

definition isoDateRegex :: regex where
  "isoDateRegex =
     seqs [digit, digit, digit, digit, Lit CHR ''-'', digit, digit, Lit CHR ''-'', digit, digit]"

text \<open>
  \<open>parseQueryToStructuredRequest\<close>. The schema rejects a date that holds no ISO date
  and more than four teams; the function then throws, which is \<open>Inl\<close> of the message.
\<close>

definition parseQueryToStructuredRequest ::
  "(string \<Rightarrow> string option) \<Rightarrow> string \<Rightarrow> QueryMetadata option \<Rightarrow> string + StructuredQuery" where
  "parseQueryToStructuredRequest detectIsoDate query meta =
     (let metadata = (case meta of None \<Rightarrow> extractQueryMetadata detectIsoDate query | Some m \<Rightarrow> m);
          sport = (if qm_sport metadata = Some ''soccer'' then soccer
                   else if qm_sport metadata = Some ''basketball'' then basketball
                   else general);
          lower = toLowerCase query;
          teams = take 2 (qm_teams metadata);
          date = qm_date metadata;
          player_opt =
            (if list_ex (\<lambda>hint. includesStr lower hint) PLAYER_HINTS
             then map_option (\<lambda>m. trim (captured 1 m)) (regexExec playerRegex True query)
             else None);
          competition = map_option (\<lambda>m. trim (captured 1 m)) (regexExec competitionRegex True query);
          matchday = map_option (\<lambda>m. digitsValue (captured 1 m)) (regexExec matchdayRegex True query);
          questionType =
            (if regexTest didResultRegex True lower then did_result_happen
             else if regexTest whoWonRegex False lower then who_won
             else if list_ex (\<lambda>hint. includesStr lower hint) SCORE_HINTS then scoreline_question
             else if regexTest awardRegex True lower then player_award
             else other_question)
      in if (case date of None \<Rightarrow> True | Some d \<Rightarrow> regexTest isoDateRegex False d)
            \<and> length teams \<le> 4
         then Inr \<lparr> sq_sport = sport, sq_date = date, sq_teams = teams, sq_player = player_opt,
                    sq_competition = competition, sq_matchday = matchday,
                    sq_questionType = questionType \<rparr>
         else Inl ''Failed to parse query structure'')"

section \<open>Statistic query classifier (stats/queryClassifier.ts)\<close>






















subsection \<open>Example queries\<close>

text \<open>
  The first pattern of \<open>detectIsoDate\<close>. It decides for a text that holds an ISO date,
  and it agrees with \<open>detectIsoDate\<close> on a text that names no month and holds no
  numeric date, where no pattern matches.
\<close>

definition detectIsoDateFirst :: "string \<Rightarrow> string option" where
  "detectIsoDateFirst lower = map_option (captured 1) (regexExec (Group 1 isoDateRegex) False lower)"




text \<open>Two outcome questions: one names no team keyword, one names two.\<close>

definition arsenalQuestion :: string where
  "arsenalQuestion = ''Did Arsenal win?''"

definition lakersQuestion :: string where
  "lakersQuestion = ''Did the Lakers win against the Suns on 2025-01-15?''"


definition questionAndTeams :: "string + StructuredQuery \<Rightarrow> (QuestionType \<times> string list) option" where
  "questionAndTeams r = (case r of Inl e \<Rightarrow> None | Inr q \<Rightarrow> Some (sq_questionType q, sq_teams q))"

section \<open>Verification: statistic consensus\<close>











section \<open>Verification: outcome reconciliation\<close>

lemma distinct_foldl_setAdd: "distinct acc \<Longrightarrow> distinct (foldl setAdd acc xs)"
  by (induction xs arbitrary: acc) (auto simp: setAdd_def)

lemma set_foldl_setAdd: "set (foldl setAdd acc xs) = set acc \<union> set xs"
  by (induction xs arbitrary: acc) (auto simp: setAdd_def)

lemma distinct_newSet: "distinct (newSet xs)"
  by (simp add: newSet_def distinct_foldl_setAdd)

lemma set_newSet: "set (newSet xs) = set xs"
  by (simp add: newSet_def set_foldl_setAdd)

text \<open>
  On the outcome path the sources of every decision are at most eight and pairwise
  distinct, whatever the language model returns.
\<close>

lemma outcome_sources_bounded_distinct:
  "length (rd_sources (decideResolution dateParse now summarize structured analysis)) \<le> 8
   \<and> distinct (rd_sources (decideResolution dateParse now summarize structured analysis))"
  by (auto simp: decideResolution_def Let_def MAX_SOURCE_COUNT_def gatherSources_def distinct_newSet
      split: option.splits)

lemma extractWinner_all_draw:
  "\<forall>f \<in> set fs. winner f = Some ''draw'' \<Longrightarrow> extractWinner fs = None"
  by (induction fs) auto

lemma findFirst_None: "\<forall>x \<in> set xs. \<not> P x \<Longrightarrow> findFirst P xs = None"
  by (induction xs) auto








text \<open>A match that ends level is reported with the winner "draw".\<close>

lemma determineWinner_level_scores: "determineWinner home away (Some s) (Some s) None = Some ''draw''"
  by (simp add: determineWinner_def truthy_def)

text \<open>
  Claim C10: on the outcome path a drawn match is never resolved. For every accepted
  group whose final facts all carry the winner "draw" and hold no award fact with a
  player, \<open>extractWinner\<close> returns no winner, \<open>deriveResolution\<close> returns
  "insufficient_data", and so does the decision, for every question type (also
  \<open>did_result_happen\<close>) and every number of corroborating providers.
\<close>

theorem C10_draw_is_never_resolved:
  assumes acc: "an_acceptedGroup analysis = Some grp"
      and fin: "finalFacts = filterFinalFacts (facts grp)"
      and draw: "\<forall>f \<in> set finalFacts. winner f = Some ''draw''"
      and noaward: "\<forall>f \<in> set finalFacts. \<not> (category f = award \<and> truthy (player f))"
  shows "extractWinner finalFacts = None
         \<and> deriveResolution structured finalFacts (extractWinner finalFacts) = ''insufficient_data''
         \<and> rd_resolution (decideResolution dateParse now summarize structured analysis)
             = ''insufficient_data''"
proof -
  have w: "extractWinner finalFacts = None" using draw by (rule extractWinner_all_draw)
  have ff: "findFirst (\<lambda>fct. category fct = award \<and> truthy (player fct)) finalFacts = None"
    using noaward by (intro findFirst_None) auto
  have tn: "\<not> truthy None" by (simp add: truthy_def)
  have d: "deriveResolution structured finalFacts None = ''insufficient_data''"
    by (simp add: deriveResolution_def ff tn)
  have "rd_resolution (decideResolution dateParse now summarize structured analysis)
             = ''insufficient_data''"
    using acc fin[symmetric] w d by (simp add: decideResolution_def Let_def)
  with w d show ?thesis by simp
qed

theorem C10_draw_is_never_resolved_witness:
  "an_acceptedGroup (analyzeFacts drawFacts []) = Some drawGroup
   \<and> drawFacts = filterFinalFacts (facts drawGroup)
   \<and> 3 \<le> countDistinctProviders drawFacts
   \<and> sq_questionType lakersQuery = did_result_happen
   \<and> extractWinner drawFacts = None
   \<and> rd_resolution (decideResolution exampleDateParse exampleNow noModelSummary lakersQuery
                       (analyzeFacts drawFacts [])) = ''insufficient_data''"
proof -
  have h1: "an_acceptedGroup (analyzeFacts drawFacts []) = Some drawGroup" by code_simp
  have h2: "drawFacts = filterFinalFacts (facts drawGroup)" by code_simp
  have h3: "\<forall>f \<in> set drawFacts. winner f = Some ''draw''"
    by (simp add: drawFacts_def matchFact_def)
  have h4: "\<forall>f \<in> set drawFacts. \<not> (category f = award \<and> truthy (player f))"
    by (simp add: drawFacts_def matchFact_def)
  have h5: "3 \<le> countDistinctProviders drawFacts" by code_simp
  have h6: "sq_questionType lakersQuery = did_result_happen" by (simp add: lakersQuery_def)
  from C10_draw_is_never_resolved[OF h1 h2 h3 h4, of lakersQuery exampleDateParse exampleNow noModelSummary]
    h1 h2 h5 h6 show ?thesis by simp
qed

section \<open>Verification: circuit breaker\<close>

lemma exec_closed_rejected:
  assumes "openedAt (cb_state cb) = None" and "action w = (Rejected e t, w')"
  shows "exec cb now action w = (Thrown e, recordFailure cb t, w')"
  using assms by (simp add: exec_def isOpen_def)









section \<open>Verification: grouping and selection\<close>



































section \<open>Verification: statistic resolution\<close>









text \<open>On the statistic path the sources are at most eight.\<close>

lemma statistic_sources_bounded:
  "length (sr_sources (resolveStatisticsQuery numberToString artifacts query)) \<le> 8"
  by (simp add: resolveStatisticsQuery_def selectSources_def Let_def split: option.splits)

text \<open>
  Claim C6: the sources of every result are at most eight and hold no duplicate. The
  outcome path keeps both (\<open>outcome_sources_bounded_distinct\<close>); the statistic path
  keeps the bound but lists a provider once for every statistic it contributed. Here
  one provider reports the yellow cards of both teams, and the sources name it twice.
\<close>

theorem C6_statistic_sources_repeat:
  "sr_sources (resolveStatisticsQuery renderInteger bothTeamsArtifacts BASE_QUERY)
     = [''OPTA_STATS'', ''OPTA_STATS'']
   \<and> \<not> distinct (sr_sources (resolveStatisticsQuery renderInteger bothTeamsArtifacts BASE_QUERY))"
  by code_simp

section \<open>Verification: the classifiers\<close>









text \<open>
  Claim C8, as the specification states it, fails for "Did Arsenal win?": the question
  type is \<open>did_result_happen\<close> and the list of teams is empty, since teams are taken from
  the basketball keywords only.
\<close>

theorem C8_no_team_counterexample:
  "questionAndTeams (parseQueryToStructuredRequest detectIsoDateFirst arsenalQuestion None)
     = Some (did_result_happen, [])"
  by code_simp

lemma take2_nonempty: "take 2 xs \<noteq> [] \<longleftrightarrow> xs \<noteq> []"
  by (cases xs) auto

lemma parse_teams_and_question:
  assumes "case qm_date (extractQueryMetadata detectIsoDate query) of
             None \<Rightarrow> True | Some d \<Rightarrow> regexTest isoDateRegex False d"
  shows "\<exists>sq. parseQueryToStructuredRequest detectIsoDate query None = Inr sq
              \<and> sq_teams sq = take 2 (qm_teams (extractQueryMetadata detectIsoDate query))
              \<and> (sq_questionType sq = did_result_happen
                   \<longleftrightarrow> regexTest didResultRegex True (toLowerCase query))"
  using assms by (simp add: parseQueryToStructuredRequest_def Let_def)

text \<open>
  Claim C8, amended: for every raw query string, the list of teams of the structured
  outcome query is non-empty exactly when the trimmed, lower-cased query contains one of
  the ten team keywords (lakers, warriors, celtics, heat, bucks, suns, clippers, bulls,
  knicks, 76ers), whatever the question type; it holds at most two teams; and the
  question type is \<open>did_result_happen\<close> exactly when the lower-cased query matches the
  pattern of that question, which names no team.
\<close>

theorem C8_teams_from_keywords:
  assumes "parseQueryToStructuredRequest detectIsoDate query None = Inr sq"
  shows "(sq_teams sq \<noteq> []
           \<longleftrightarrow> (\<exists>keyword \<in> set [''lakers'', ''warriors'', ''celtics'', ''heat'', ''bucks'', ''suns'',
                                ''clippers'', ''bulls'', ''knicks'', ''76ers''].
                  includesStr (toLowerCase (trim query)) keyword))
         \<and> length (sq_teams sq) \<le> 2
         \<and> (sq_questionType sq = did_result_happen
              \<longleftrightarrow> regexTest didResultRegex True (toLowerCase query))"
proof -
  let ?teams = "filter (\<lambda>keyword. keyword \<noteq> ''nba'' \<and> keyword \<noteq> ''basketball''
                                      \<and> includesStr (toLowerCase (trim query)) keyword)
                  BASKETBALL_KEYWORDS"
  from assms have t: "sq_teams sq = take 2 ?teams"
    and q: "sq_questionType sq = did_result_happen
              \<longleftrightarrow> regexTest didResultRegex True (toLowerCase query)"
    by (auto simp: parseQueryToStructuredRequest_def extractQueryMetadata_def Let_def
             split: if_splits)
  have "?teams \<noteq> [] \<longleftrightarrow> (\<exists>keyword \<in> set [''lakers'', ''warriors'', ''celtics'', ''heat'', ''bucks'', ''suns'',
                                ''clippers'', ''bulls'', ''knicks'', ''76ers''].
                  includesStr (toLowerCase (trim query)) keyword)"
    unfolding filter_empty_conv BASKETBALL_KEYWORDS_def by simp
  with t q show ?thesis by (simp add: take2_nonempty)
qed

theorem C8_teams_from_keywords_witness:
  "\<exists>sq. parseQueryToStructuredRequest detectIsoDateFirst lakersQuestion None = Inr sq
        \<and> sq_questionType sq = did_result_happen
        \<and> sq_teams sq = [''lakers'', ''suns'']
        \<and> (\<exists>keyword \<in> set [''lakers'', ''warriors'', ''celtics'', ''heat'', ''bucks'', ''suns'',
                               ''clippers'', ''bulls'', ''knicks'', ''76ers''].
               includesStr (toLowerCase (trim lakersQuestion)) keyword)"
proof -
  have m: "extractQueryMetadata detectIsoDateFirst lakersQuestion
             = \<lparr> qm_original = lakersQuestion, qm_normalized = lakersQuestion,
                 qm_sport = Some ''basketball'', qm_date = Some ''2025-01-15'',
                 qm_teams = [''lakers'', ''suns''] \<rparr>" by code_simp
  have d: "regexTest isoDateRegex False ''2025-01-15''" by code_simp
  have t: "regexTest didResultRegex True (toLowerCase lakersQuestion)" by code_simp
  have "case qm_date (extractQueryMetadata detectIsoDateFirst lakersQuestion) of
             None \<Rightarrow> True | Some d \<Rightarrow> regexTest isoDateRegex False d"
    by (simp add: m d)
  from parse_teams_and_question[OF this] obtain sq where
    h: "parseQueryToStructuredRequest detectIsoDateFirst lakersQuestion None = Inr sq"
    and ts: "sq_teams sq = [''lakers'', ''suns'']"
    and qt: "sq_questionType sq = did_result_happen"
    using m t by auto
  from C8_teams_from_keywords[OF h] ts have
    k: "\<exists>keyword \<in> set [''lakers'', ''warriors'', ''celtics'', ''heat'', ''bucks'', ''suns'',
                      ''clippers'', ''bulls'', ''knicks'', ''76ers''].
        includesStr (toLowerCase (trim lakersQuestion)) keyword" by simp
  from h qt ts k show ?thesis by blast
qed

end
